theory Spec2Isabelle
  imports
    Main
    "HOL-Library.Word"
    "HOL-Library.Char_ord"
    "HOL-Library.List_Lexorder"
begin

unbundle bit_operations_syntax

section \<open>JavaScript values and strings\<close>

text \<open>
  The embedding follows the complete CommonJS \<^verbatim>\<open>server.js\<close> (the first document of
  \<^verbatim>\<open>src/unnamed/part_000\<close>); \<^verbatim>\<open>src/server.js\<close> holds the same \<^verbatim>\<open>verifyProxy\<close>,
  \<^verbatim>\<open>gidToLegacyId\<close>, \<^verbatim>\<open>mapDraftOrderNode\<close> and list handler.

  A JavaScript string is represented by the bytes of its UTF-8 encoding, one \<^typ>\<open>char\<close>
  per byte, so \<^verbatim>\<open>Buffer.from(s, "utf8")\<close> reads the characters off as bytes. Strings
  holding a lone surrogate have no such representation and are outside the model. All the
  string operations of the program (\<^verbatim>\<open>startsWith\<close>, \<^verbatim>\<open>split("/")\<close>, \<^verbatim>\<open>/^\d+$/\<close>,
  \<^verbatim>\<open>includes\<close>) search for ASCII text and act on the encoding as they act on the string.
\<close>

type_synonym byte = "8 word"

datatype js_error = TypeError string | RangeError string | Error string

fun message :: "js_error \<Rightarrow> string" where
  "message (TypeError m) = m"
| "message (RangeError m) = m"
| "message (Error m) = m"

text \<open>
  A value of \<^verbatim>\<open>req.query\<close>: a string, or an array when the parameter is repeated
  (\<^verbatim>\<open>a=1&a=2\<close>) or written with brackets (\<^verbatim>\<open>a[]=1\<close>). The nested objects that
  the extended parser builds from \<^verbatim>\<open>a[b]=1\<close> are left to a section of their own below.
\<close>

datatype qval = QStr string | QArr "qval list"

fun q_truthy :: "qval \<Rightarrow> bool" where
  "q_truthy (QStr s) = (s \<noteq> [])"
| "q_truthy (QArr _) = True"

fun join :: "string \<Rightarrow> string list \<Rightarrow> string" where
  "join sep [] = []"
| "join sep [x] = x"
| "join sep (x # y # ys) = x @ sep @ join sep (y # ys)"

fun q_ToString :: "qval \<Rightarrow> string" where
  "q_ToString (QStr s) = s"
| "q_ToString (QArr xs) = join '','' (map q_ToString xs)"

definition startsWith :: "string \<Rightarrow> string \<Rightarrow> bool" where
  "startsWith s p = (take (length p) s = p)"

fun includes_str :: "string \<Rightarrow> string \<Rightarrow> bool" where
  "includes_str [] p = (p = [])"
| "includes_str (c # cs) p = (startsWith (c # cs) p \<or> includes_str cs p)"

fun split_on :: "char \<Rightarrow> string \<Rightarrow> string list" where
  "split_on d [] = [[]]"
| "split_on d (c # cs) =
     (if c = d then [] # split_on d cs
      else (case split_on d cs of [] \<Rightarrow> [[c]] | w # ws \<Rightarrow> (c # w) # ws))"

definition is_digit :: "char \<Rightarrow> bool" where
  "is_digit c = (CHR ''0'' \<le> c \<and> c \<le> CHR ''9'')"

text \<open>The regular expression \<^verbatim>\<open>/^\d+$/\<close>: one or more ASCII digits and nothing else.\<close>

definition all_digits :: "string \<Rightarrow> bool" where
  "all_digits s = (s \<noteq> [] \<and> list_all is_digit s)"

section \<open>The runtime the program calls\<close>

text \<open>
  The primitives of Node that the program calls and that are not part of the repository are
  parameters: the HMAC-SHA256 function (key bytes, message bytes, digest bytes), the bytes
  that \<^verbatim>\<open>Buffer.from\<close> makes of an array (one byte for each element, by the engine's
  conversion to a number), and \<^verbatim>\<open>JSON.stringify\<close>. Every theorem holds for every
  choice of them.
\<close>

datatype jsval =
    Undefined
  | Null
  | JBool bool
  | JNum int
  | JStr string
  | JArr "jsval list"
  | JObj "(string \<times> jsval) list"

record node_rt =
  hmac_sha256 :: "byte list \<Rightarrow> byte list \<Rightarrow> byte list"
  buffer_from_array :: "qval list \<Rightarrow> byte list"
  json_stringify :: "jsval \<Rightarrow> string"

definition utf8 :: "string \<Rightarrow> byte list" where
  "utf8 s = map (\<lambda>c. of_nat (of_char c)) s"

definition hex_digit :: "nat \<Rightarrow> char" where
  "hex_digit n = ''0123456789abcdef'' ! n"

definition hex_encode :: "byte list \<Rightarrow> string" where
  "hex_encode bs = concat (map (\<lambda>b. [hex_digit (unat b div 16), hex_digit (unat b mod 16)]) bs)"

definition b64_char :: "nat \<Rightarrow> char" where
  "b64_char n = ''ABCDEFGHIJKLMNOPQRSTUVWXYZabcdefghijklmnopqrstuvwxyz0123456789+/'' ! n"

fun base64_encode :: "byte list \<Rightarrow> string" where
  "base64_encode [] = []"
| "base64_encode [a] =
     [b64_char (unat a div 4), b64_char ((unat a mod 4) * 16), CHR ''='', CHR ''='']"
| "base64_encode [a, b] =
     [b64_char (unat a div 4), b64_char ((unat a mod 4) * 16 + unat b div 16),
      b64_char ((unat b mod 16) * 4), CHR ''='']"
| "base64_encode (a # b # c # rest) =
     [b64_char (unat a div 4), b64_char ((unat a mod 4) * 16 + unat b div 16),
      b64_char ((unat b mod 16) * 4 + unat c div 64), b64_char (unat c mod 64)]
     @ base64_encode rest"

section \<open>Signature verification\<close>

definition timingSafeEqual :: "byte list \<Rightarrow> byte list \<Rightarrow> js_error + bool" where
  "timingSafeEqual x y =
     (if length x \<noteq> length y
      then Inl (RangeError ''Input buffers must have the same byte length'')
      else Inr (x = y))"

fun Buffer_from :: "node_rt \<Rightarrow> qval \<Rightarrow> byte list" where
  "Buffer_from rt (QStr s) = utf8 s"
| "Buffer_from rt (QArr xs) = buffer_from_array rt xs"

text \<open>
  The body of the \<^verbatim>\<open>try\<close> block of \<^verbatim>\<open>safeEqual\<close>; \<^verbatim>\<open>timingSafeEqual\<close> raises
  on buffers of different lengths.
\<close>

definition safeEqual_try :: "node_rt \<Rightarrow> qval \<Rightarrow> string \<Rightarrow> js_error + bool" where
  "safeEqual_try rt a b = timingSafeEqual (Buffer_from rt a) (Buffer_from rt (QStr b))"

definition safeEqual :: "node_rt \<Rightarrow> qval \<Rightarrow> string \<Rightarrow> bool" where
  "safeEqual rt a b = (case safeEqual_try rt a b of Inl e \<Rightarrow> False | Inr r \<Rightarrow> r)"

definition hmacBase64 :: "node_rt \<Rightarrow> string \<Rightarrow> string \<Rightarrow> string" where
  "hmacBase64 rt secret raw = base64_encode (hmac_sha256 rt (utf8 secret) (utf8 raw))"

definition hmacHex :: "node_rt \<Rightarrow> string \<Rightarrow> string \<Rightarrow> string" where
  "hmacHex rt secret raw = hex_encode (hmac_sha256 rt (utf8 secret) (utf8 raw))"

record env =
  APP_PROXY_SHARED_SECRET :: "string option"
  SHOP_DOMAIN :: "string option"
  ADMIN_API_VERSION :: "string option"
  ADMIN_ACCESS_TOKEN :: "string option"

text \<open>
  The parts of an Express request the program reads. Header names are lower-case, header
  values are strings; \<^verbatim>\<open>query\<close> lists the parsed parameters, each key once.
\<close>

record request =
  headers :: "string \<Rightarrow> string option"
  query :: "(string \<times> qval) list"
  originalUrl :: string
  params_id :: string

text \<open>
  \<^verbatim>\<open>req.headers["x-shopify-proxy-signature"] || req.headers["x-shopify-hmac-sha256"]\<close>:
  the first header when it is a non-empty string, the second otherwise.
\<close>

definition headerSig :: "request \<Rightarrow> string option" where
  "headerSig req =
     (case headers req ''x-shopify-proxy-signature'' of
        None \<Rightarrow> headers req ''x-shopify-hmac-sha256''
      | Some h \<Rightarrow> if h \<noteq> [] then Some h else headers req ''x-shopify-hmac-sha256'')"

text \<open>\<^verbatim>\<open>const { signature: legacySig, ...rest } = req.query\<close>\<close>

definition legacySig :: "request \<Rightarrow> qval option" where
  "legacySig req = map_of (query req) ''signature''"

definition rest :: "request \<Rightarrow> (string \<times> qval) list" where
  "rest req = filter (\<lambda>kv. fst kv \<noteq> ''signature'') (query req)"

definition raw2 :: "string \<Rightarrow> string" where
  "raw2 raw1 = ''/apps'' @ (if startsWith raw1 ''/'' then [] else ''/'') @ raw1"

text \<open>
  The UTF-16 code units of a string, read off its UTF-8 bytes: one unit for a character of
  one, two or three bytes, a surrogate pair for a character of four bytes (beyond U+FFFF).
  Byte sequences that are not UTF-8 are outside the model.
\<close>

definition continuation :: "char \<Rightarrow> int" where
  "continuation c = of_char c - 0x80"

fun utf16_units :: "string \<Rightarrow> int list" where
  "utf16_units [] = []"
| "utf16_units (b # bs) =
     (if of_char b < (0xC0 :: int) then of_char b # utf16_units bs
      else if of_char b < (0xE0 :: int) then
        (case bs of
           c # r \<Rightarrow> ((of_char b - 0xC0) * 64 + continuation c) # utf16_units r
         | _ \<Rightarrow> [of_char b])
      else if of_char b < (0xF0 :: int) then
        (case bs of
           c # d # r \<Rightarrow>
             ((of_char b - 0xE0) * 4096 + continuation c * 64 + continuation d) # utf16_units r
         | _ \<Rightarrow> [of_char b])
      else
        (case bs of
           c # d # e # r \<Rightarrow>
             (let cp = (of_char b - 0xF0) * 262144 + continuation c * 4096
                       + continuation d * 64 + continuation e
              in (0xD800 + (cp - 0x10000) div 1024) # (0xDC00 + (cp - 0x10000) mod 1024)
                 # utf16_units r)
         | _ \<Rightarrow> [of_char b]))"

text \<open>
  \<^verbatim>\<open>Object.keys(rest).sort().map(k => `${k}=${rest[k]}`).join("")\<close>; a key that is
  listed always has a value. \<^verbatim>\<open>sort()\<close> without a comparator orders the keys as
  strings, by their UTF-16 code units, a proper prefix first.
\<close>

definition sorted_params :: "(string \<times> qval) list \<Rightarrow> string" where
  "sorted_params r =
     join [] (map (\<lambda>k. k @ ''='' @ (case map_of r k of None \<Rightarrow> ''undefined'' | Some v \<Rightarrow> q_ToString v))
                  (sort_key utf16_units (map fst r)))"

text \<open>
  \<^verbatim>\<open>verifyProxy\<close>: false without a secret; true as soon as the header signature equals
  one of the two base64 digests; otherwise true exactly when a legacy signature is there and
  equals the hexadecimal digest.
\<close>

definition verifyProxy :: "node_rt \<Rightarrow> env \<Rightarrow> request \<Rightarrow> bool" where
  "verifyProxy rt ev req =
     (let secret = (case APP_PROXY_SHARED_SECRET ev of None \<Rightarrow> [] | Some s \<Rightarrow> s) in
      if secret = [] then False
      else
        let header_ok =
              (case headerSig req of
                 None \<Rightarrow> False
               | Some h \<Rightarrow>
                   if h = [] then False
                   else if safeEqual rt (QStr h) (hmacBase64 rt secret (originalUrl req)) then True
                   else safeEqual rt (QStr h) (hmacBase64 rt secret (raw2 (originalUrl req))))
        in
        if header_ok then True
        else
          (case legacySig req of
             None \<Rightarrow> False
           | Some l \<Rightarrow>
               if \<not> q_truthy l then False
               else safeEqual rt l (hmacHex rt secret (sorted_params (rest req)))))"

section \<open>Upstream JSON values\<close>

text \<open>
  Values parsed from the upstream response. \<^term>\<open>JNum\<close> carries integers only, of
  the size that \<^verbatim>\<open>String\<close> prints digit by digit; a missing property reads as
  \<^term>\<open>Undefined\<close>. Reading a property of \<^verbatim>\<open>undefined\<close> or
  \<^verbatim>\<open>null\<close> raises a TypeError; none of the property names this program reads is
  inherited from a prototype, so on every other value such a read gives the own property or
  \<^verbatim>\<open>undefined\<close>. The messages of engine errors are approximations of V8's.
\<close>

definition bindE :: "'e + 'a \<Rightarrow> ('a \<Rightarrow> 'e + 'b) \<Rightarrow> 'e + 'b" where
  "bindE m f = (case m of Inl e \<Rightarrow> Inl e | Inr x \<Rightarrow> f x)"

fun mapE :: "('a \<Rightarrow> 'e + 'b) \<Rightarrow> 'a list \<Rightarrow> 'e + 'b list" where
  "mapE f [] = Inr []"
| "mapE f (x # xs) = bindE (f x) (\<lambda>y. bindE (mapE f xs) (\<lambda>ys. Inr (y # ys)))"

fun js_truthy :: "jsval \<Rightarrow> bool" where
  "js_truthy Undefined = False"
| "js_truthy Null = False"
| "js_truthy (JBool b) = b"
| "js_truthy (JNum n) = (n \<noteq> 0)"
| "js_truthy (JStr s) = (s \<noteq> [])"
| "js_truthy (JArr _) = True"
| "js_truthy (JObj _) = True"

fun nullish :: "jsval \<Rightarrow> bool" where
  "nullish Undefined = True"
| "nullish Null = True"
| "nullish _ = False"

fun own_property :: "jsval \<Rightarrow> string \<Rightarrow> jsval" where
  "own_property (JObj kvs) k = (case map_of kvs k of None \<Rightarrow> Undefined | Some v \<Rightarrow> v)"
| "own_property _ k = Undefined"

text \<open>\<^verbatim>\<open>v.k\<close>\<close>

definition js_get :: "jsval \<Rightarrow> string \<Rightarrow> js_error + jsval" where
  "js_get v k =
     (if nullish v then Inl (TypeError (''Cannot read properties of undefined or null: '' @ k))
      else Inr (own_property v k))"

text \<open>\<^verbatim>\<open>v?.k\<close>\<close>

definition opt_get :: "jsval \<Rightarrow> string \<Rightarrow> jsval" where
  "opt_get v k = (if nullish v then Undefined else own_property v k)"

fun decimal :: "nat \<Rightarrow> string" where
  "decimal n =
     (if n < 10 then [''0123456789'' ! n]
      else decimal (n div 10) @ [''0123456789'' ! (n mod 10)])"

declare decimal.simps [simp del]

text \<open>
  \<^verbatim>\<open>String(v)\<close>, as a template literal applies it. An array joins its elements with a
  comma, \<^verbatim>\<open>null\<close> and \<^verbatim>\<open>undefined\<close> elements as the empty string. A parsed JSON
  object is \<^verbatim>\<open>[object Object]\<close>, unless it has an own property \<^verbatim>\<open>toString\<close>: that
  value is not callable and the inherited \<^verbatim>\<open>valueOf\<close> returns the object, so the
  conversion raises.
\<close>

fun js_ToString :: "jsval \<Rightarrow> js_error + string"
  and js_elements :: "jsval list \<Rightarrow> js_error + string list" where
  "js_ToString Undefined = Inr ''undefined''"
| "js_ToString Null = Inr ''null''"
| "js_ToString (JBool b) = Inr (if b then ''true'' else ''false'')"
| "js_ToString (JNum n) = Inr (if n < 0 then ''-'' @ decimal (nat (- n)) else decimal (nat n))"
| "js_ToString (JStr s) = Inr s"
| "js_ToString (JArr xs) = bindE (js_elements xs) (\<lambda>ss. Inr (join '','' ss))"
| "js_ToString (JObj kvs) =
     (if ''toString'' \<in> set (map fst kvs)
      then Inl (TypeError ''Cannot convert object to primitive value'')
      else Inr ''[object Object]'')"
| "js_elements [] = Inr []"
| "js_elements (x # xs) =
     bindE (if nullish x then Inr [] else js_ToString x)
       (\<lambda>s. bindE (js_elements xs) (\<lambda>ss. Inr (s # ss)))"

text \<open>\<^verbatim>\<open>v.map(f)\<close>: only an array has a callable \<^verbatim>\<open>map\<close>.\<close>

definition js_map :: "(jsval \<Rightarrow> js_error + jsval) \<Rightarrow> jsval \<Rightarrow> js_error + jsval list" where
  "js_map f v =
     (case v of
        JArr xs \<Rightarrow> mapE f xs
      | _ \<Rightarrow>
          if nullish v then Inl (TypeError ''Cannot read properties of undefined or null: map'')
          else Inl (TypeError ''map is not a function''))"

fun jsval_of_qval :: "qval \<Rightarrow> jsval" where
  "jsval_of_qval (QStr s) = JStr s"
| "jsval_of_qval (QArr xs) = JArr (map jsval_of_qval xs)"

section \<open>Signature verification on nested query values\<close>

text \<open>
  Under the extended query parser \<^verbatim>\<open>req.query\<close> may also hold nested objects
  (\<^verbatim>\<open>a[b]=1\<close>), which \<^typ>\<open>qval\<close> leaves out. The definitions of this section are
  \<^verbatim>\<open>verifyProxy\<close> and its helpers once more, on a request whose parsed query \<open>q\<close> holds
  arbitrary values (the field \<^term>\<open>query\<close> of the request is not read). Here the template
  literal \<^verbatim>\<open>`${k}=${rest[k]}`\<close> can raise, and it stands outside every \<^verbatim>\<open>try\<close> of
  \<^verbatim>\<open>verifyProxy\<close>. What \<^verbatim>\<open>Buffer.from\<close> makes of a value that is not a string (bytes
  or a TypeError) is the parameter \<open>bf\<close>.
\<close>

definition Buffer_from_nested ::
  "(jsval \<Rightarrow> js_error + byte list) \<Rightarrow> jsval \<Rightarrow> js_error + byte list" where
  "Buffer_from_nested bf v = (case v of JStr s \<Rightarrow> Inr (utf8 s) | _ \<Rightarrow> bf v)"

definition safeEqual_nested_try ::
  "(jsval \<Rightarrow> js_error + byte list) \<Rightarrow> jsval \<Rightarrow> string \<Rightarrow> js_error + bool" where
  "safeEqual_nested_try bf a b =
     bindE (Buffer_from_nested bf a) (\<lambda>x.
     bindE (Buffer_from_nested bf (JStr b)) (\<lambda>y. timingSafeEqual x y))"

definition safeEqual_nested ::
  "(jsval \<Rightarrow> js_error + byte list) \<Rightarrow> jsval \<Rightarrow> string \<Rightarrow> bool" where
  "safeEqual_nested bf a b =
     (case safeEqual_nested_try bf a b of Inl e \<Rightarrow> False | Inr r \<Rightarrow> r)"

definition rest_nested :: "(string \<times> jsval) list \<Rightarrow> (string \<times> jsval) list" where
  "rest_nested q = filter (\<lambda>kv. fst kv \<noteq> ''signature'') q"

definition sorted_params_nested :: "(string \<times> jsval) list \<Rightarrow> js_error + string" where
  "sorted_params_nested r =
     bindE (mapE (\<lambda>k. bindE (js_ToString (case map_of r k of None \<Rightarrow> Undefined | Some v \<Rightarrow> v))
                          (\<lambda>s. Inr (k @ ''='' @ s)))
                 (sort_key utf16_units (map fst r)))
       (\<lambda>parts. Inr (join [] parts))"

definition verifyProxy_nested ::
  "node_rt \<Rightarrow> (jsval \<Rightarrow> js_error + byte list) \<Rightarrow> env \<Rightarrow> request
     \<Rightarrow> (string \<times> jsval) list \<Rightarrow> js_error + bool" where
  "verifyProxy_nested rt bf ev req q =
     (let secret = (case APP_PROXY_SHARED_SECRET ev of None \<Rightarrow> [] | Some s \<Rightarrow> s) in
      if secret = [] then Inr False
      else
        let header_ok =
              (case headerSig req of
                 None \<Rightarrow> False
               | Some h \<Rightarrow>
                   if h = [] then False
                   else if safeEqual_nested bf (JStr h) (hmacBase64 rt secret (originalUrl req))
                   then True
                   else safeEqual_nested bf (JStr h)
                          (hmacBase64 rt secret (raw2 (originalUrl req))))
        in
        if header_ok then Inr True
        else
          (case map_of q ''signature'' of
             None \<Rightarrow> Inr False
           | Some l \<Rightarrow>
               if \<not> js_truthy l then Inr False
               else
                 bindE (sorted_params_nested (rest_nested q)) (\<lambda>sorted.
                   Inr (safeEqual_nested bf l (hmacHex rt secret sorted)))))"

text \<open>A query of strings and arrays as a query of arbitrary values.\<close>

definition nested_query :: "(string \<times> qval) list \<Rightarrow> (string \<times> jsval) list" where
  "nested_query q = map (\<lambda>kv. (fst kv, jsval_of_qval (snd kv))) q"

section \<open>Identifier and node mapping\<close>

definition gidToLegacyId :: "qval \<Rightarrow> string option" where
  "gidToLegacyId gid =
     (if \<not> q_truthy gid then None
      else
        let s = q_ToString gid in
        if startsWith s ''gid://'' \<and> all_digits (last (split_on CHR ''/'' s))
        then Some (last (split_on CHR ''/'' s))
        else if all_digits s then Some s
        else None)"

text \<open>The callback of \<^verbatim>\<open>(node.lineItems.edges || []).map(({ node: li }) => ...)\<close>.\<close>

definition lineItem :: "jsval \<Rightarrow> js_error + jsval" where
  "lineItem edge =
     bindE (js_get edge ''node'') (\<lambda>li.
     bindE (js_get li ''title'') (\<lambda>title.
     bindE (js_get li ''quantity'') (\<lambda>quantity.
     bindE (js_get li ''variantTitle'') (\<lambda>vt.
       Inr (JObj [(''title'', title), (''quantity'', quantity),
                  (''variantTitle'', if js_truthy vt then vt else JStr [])])))))"

definition total_of :: "jsval \<Rightarrow> js_error + jsval" where
  "total_of node =
     bindE (js_get node ''totalPriceSet'') (\<lambda>tps.
       let pm = opt_get tps ''presentmentMoney'' in
       if js_truthy pm then
         bindE (js_get pm ''amount'') (\<lambda>amount.
         bindE (js_ToString amount) (\<lambda>a.
         bindE (js_get pm ''currencyCode'') (\<lambda>currencyCode.
         bindE (js_ToString currencyCode) (\<lambda>c.
           Inr (JStr (a @ '' '' @ c))))))
       else Inr Null)"

definition lineItems_of :: "jsval \<Rightarrow> bool \<Rightarrow> js_error + (string \<times> jsval) list" where
  "lineItems_of node includeItems =
     (if \<not> includeItems then Inr []
      else
        bindE (js_get node ''lineItems'') (\<lambda>lis.
          if \<not> js_truthy lis then Inr []
          else
            bindE (js_get lis ''edges'') (\<lambda>edges.
            bindE (js_map lineItem (if js_truthy edges then edges else JArr [])) (\<lambda>items.
              Inr [(''lineItems'', JArr items)]))))"

definition mapDraftOrderNode :: "jsval \<Rightarrow> bool \<Rightarrow> js_error + jsval" where
  "mapDraftOrderNode node includeItems =
     bindE (js_get node ''id'') (\<lambda>id.
     bindE (js_get node ''legacyResourceId'') (\<lambda>legacyResourceId.
     bindE (js_get node ''name'') (\<lambda>name.
     bindE (js_get node ''createdAt'') (\<lambda>createdAt.
     bindE (js_get node ''status'') (\<lambda>status.
     bindE (js_get node ''invoiceUrl'') (\<lambda>invoiceUrl.
     bindE (total_of node) (\<lambda>total.
     bindE (lineItems_of node includeItems) (\<lambda>items.
       Inr (JObj ([(''id'', id), (''legacyResourceId'', legacyResourceId), (''name'', name),
                   (''createdAt'', createdAt), (''status'', status),
                   (''invoiceUrl'', invoiceUrl), (''total'', total)] @ items))))))))))"

section \<open>The upstream call\<close>

text \<open>
  \<^verbatim>\<open>fetch\<close> is a parameter: it either rejects or resolves to a response, of which the
  program reads the status, the body as text and the body parsed as JSON (each of the two
  reads may reject). The request is kept structured: the URL, the access-token header, and
  the \<^verbatim>\<open>query\<close> and \<^verbatim>\<open>variables\<close> of the JSON body. Every handler returns the list
  of the requests it has sent beside its response.
\<close>

record fetch_request =
  fr_url :: string
  fr_token :: string
  fr_query :: string
  fr_variables :: jsval

record http_response =
  resp_status :: nat
  resp_text :: "js_error + string"
  resp_json :: "js_error + jsval"

datatype fetch_outcome = FetchRejected js_error | FetchResolved http_response

definition resp_ok :: "http_response \<Rightarrow> bool" where
  "resp_ok r = (200 \<le> resp_status r \<and> resp_status r \<le> 299)"

text \<open>\<^verbatim>\<open>!v\<close> for an environment variable: unset or empty.\<close>

definition env_missing :: "string option \<Rightarrow> bool" where
  "env_missing v = (case v of None \<Rightarrow> True | Some s \<Rightarrow> s = [])"

definition env_value :: "string option \<Rightarrow> string" where
  "env_value v = (case v of None \<Rightarrow> ''undefined'' | Some s \<Rightarrow> s)"

definition adminGraphQL ::
  "node_rt \<Rightarrow> env \<Rightarrow> (fetch_request \<Rightarrow> fetch_outcome) \<Rightarrow> string \<Rightarrow> jsval
     \<Rightarrow> fetch_request list \<times> (js_error + jsval)" where
  "adminGraphQL rt ev fetch q variables =
     (if env_missing (SHOP_DOMAIN ev) \<or> env_missing (ADMIN_API_VERSION ev)
          \<or> env_missing (ADMIN_ACCESS_TOKEN ev)
      then ([], Inl (Error ''Missing env: SHOP_DOMAIN, ADMIN_API_VERSION, or ADMIN_ACCESS_TOKEN''))
      else
        let rq = \<lparr> fr_url = ''https://'' @ env_value (SHOP_DOMAIN ev) @ ''/admin/api/''
                             @ env_value (ADMIN_API_VERSION ev) @ ''/graphql.json'',
                   fr_token = env_value (ADMIN_ACCESS_TOKEN ev),
                   fr_query = q,
                   fr_variables = variables \<rparr>
        in
        (case fetch rq of
           FetchRejected e \<Rightarrow> ([rq], Inl e)
         | FetchResolved resp \<Rightarrow>
             if \<not> resp_ok resp then
               let txt = (case resp_text resp of Inl e \<Rightarrow> [] | Inr t \<Rightarrow> t) in
               ([rq], Inl (Error (''[AdminAPI] HTTP '' @ decimal (resp_status resp) @ '': '' @ txt)))
             else
               ([rq],
                bindE (resp_json resp) (\<lambda>json.
                bindE (js_get json ''errors'') (\<lambda>errors.
                  if js_truthy errors
                  then Inl (Error (''[AdminAPI] GraphQL errors: '' @ json_stringify rt errors))
                  else js_get json ''data'')))))"

section \<open>Endpoints\<close>

text \<open>Of the response, the status, the headers this program sets, and the JSON body.\<close>

record response =
  res_status :: nat
  res_headers :: "(string \<times> string) list"
  res_body :: jsval

text \<open>\<^verbatim>\<open>res.status(code).json({ error: msg })\<close>\<close>

definition error_response :: "nat \<Rightarrow> string \<Rightarrow> response" where
  "error_response code msg =
     \<lparr> res_status = code, res_headers = [], res_body = JObj [(''error'', JStr msg)] \<rparr>"

text \<open>The two \<^verbatim>\<open>res.setHeader\<close> calls followed by \<^verbatim>\<open>res.json(body)\<close>.\<close>

definition no_cache_json :: "jsval \<Rightarrow> response" where
  "no_cache_json body =
     \<lparr> res_status = 200,
       res_headers = [(''Cache-Control'', ''no-store, no-cache, must-revalidate''),
                      (''Pragma'', ''no-cache'')],
       res_body = body \<rparr>"

text \<open>
  \<^verbatim>\<open>toLowerCase\<close> on the ASCII letters; the program only compares the result with
  \<^verbatim>\<open>"items"\<close>, and no character outside ASCII lower-cases to one of its letters.
\<close>

definition toLowerCase :: "string \<Rightarrow> string" where
  "toLowerCase s =
     map (\<lambda>c. if CHR ''A'' \<le> c \<and> c \<le> CHR ''Z'' then char_of (of_char c + (32::nat)) else c) s"

text \<open>\<^verbatim>\<open>String(req.query.include || "").toLowerCase() === "items"\<close>\<close>

definition includeItems_of :: "request \<Rightarrow> bool" where
  "includeItems_of req =
     (let v = (case map_of (query req) ''include'' of
                 None \<Rightarrow> QStr []
               | Some x \<Rightarrow> if q_truthy x then x else QStr [])
      in toLowerCase (q_ToString v) = ''items'')"

definition unlines :: "string list \<Rightarrow> string" where
  "unlines ls = join [CHR 0x0A] ls"

definition list_lineItemsFrag :: "bool \<Rightarrow> string" where
  "list_lineItemsFrag includeItems =
     (if includeItems then
        unlines [[],
          ''        lineItems(first: 50) {'',
          ''          edges { node { title quantity variantTitle } }'',
          ''        }'']
      else [])"

definition list_query :: "bool \<Rightarrow> string" where
  "list_query includeItems =
     unlines [[],
       ''      query ListDraftOrders($first:Int!, $after:String, $q:String!) {'',
       ''        draftOrders(first: $first, after: $after, query: $q) {'',
       ''          pageInfo { hasNextPage hasPreviousPage startCursor endCursor }'',
       ''          edges {'',
       ''            cursor'',
       ''            node {'',
       ''              id'',
       ''              legacyResourceId'',
       ''              name'',
       ''              createdAt'',
       ''              status'',
       ''              invoiceUrl'',
       ''              totalPriceSet { presentmentMoney { amount currencyCode } }'',
       ''              customer { id }'',
       ''              '' @ list_lineItemsFrag includeItems,
       ''            }'',
       ''          }'',
       ''        }'',
       ''      }'',
       ''    '']"

definition detail_lineItemsFrag :: "bool \<Rightarrow> string" where
  "detail_lineItemsFrag includeItems =
     (if includeItems then
        unlines [[],
          ''        lineItems(first: 50) { edges { node { title quantity variantTitle } } }'',
          ''      '']
      else [])"

definition detail_query :: "bool \<Rightarrow> string" where
  "detail_query includeItems =
     unlines [[],
       ''      query OneDraftOrder($id: ID!) {'',
       ''        draftOrder(id: $id) {'',
       ''          id'',
       ''          legacyResourceId'',
       ''          name'',
       ''          createdAt'',
       ''          status'',
       ''          invoiceUrl'',
       ''          totalPriceSet { presentmentMoney { amount currencyCode } }'',
       ''          '' @ detail_lineItemsFrag includeItems,
       ''        }'',
       ''      }'',
       ''    '']"

text \<open>\<^verbatim>\<open>edges.map(({ node }) => mapDraftOrderNode(node, includeItems))\<close>\<close>

definition map_edge :: "bool \<Rightarrow> jsval \<Rightarrow> js_error + jsval" where
  "map_edge includeItems edge =
     bindE (js_get edge ''node'') (\<lambda>node. mapDraftOrderNode node includeItems)"

text \<open>\<^verbatim>\<open>GET /devis\<close>. The \<^verbatim>\<open>catch\<close> answers 500 to whatever was raised.\<close>

definition devis_list ::
  "node_rt \<Rightarrow> env \<Rightarrow> (fetch_request \<Rightarrow> fetch_outcome) \<Rightarrow> request
     \<Rightarrow> response \<times> fetch_request list" where
  "devis_list rt ev fetch req =
     (if \<not> verifyProxy rt ev req then (error_response 401 ''invalid_signature'', [])
      else
        (case map_of (query req) ''customer_id'' of
           None \<Rightarrow> (error_response 400 ''missing customer_id'', [])
         | Some customerParam \<Rightarrow>
             if \<not> q_truthy customerParam then (error_response 400 ''missing customer_id'', [])
             else
               (case gidToLegacyId customerParam of
                  None \<Rightarrow> (error_response 400 ''bad customer_id'', [])
                | Some customerLegacyId \<Rightarrow>
                    if customerLegacyId = [] then (error_response 400 ''bad customer_id'', [])
                    else
                      let after = (case map_of (query req) ''after'' of
                                     None \<Rightarrow> Null
                                   | Some a \<Rightarrow> if q_truthy a then jsval_of_qval a else Null);
                          includeItems = includeItems_of req;
                          variables = JObj [(''first'', JNum 10), (''after'', after),
                                            (''q'', JStr (''customer_id:'' @ customerLegacyId))];
                          (calls, result) =
                             adminGraphQL rt ev fetch (list_query includeItems) variables
                      in
                      (case result of
                         Inl e \<Rightarrow> (error_response 500 ''server_error'', calls)
                       | Inr data \<Rightarrow>
                           let e0 = opt_get (opt_get data ''draftOrders'') ''edges'';
                               edges = (if js_truthy e0 then e0 else JArr []);
                               p0 = opt_get (opt_get data ''draftOrders'') ''pageInfo'';
                               pageInfo = (if js_truthy p0 then p0 else JObj [])
                           in
                           (case js_map (map_edge includeItems) edges of
                              Inl e \<Rightarrow> (error_response 500 ''server_error'', calls)
                            | Inr quotes \<Rightarrow>
                                (no_cache_json (JObj [(''quotes'', JArr quotes),
                                                      (''pageInfo'', pageInfo)]),
                                 calls))))))"

text \<open>The \<^verbatim>\<open>catch\<close> of \<^verbatim>\<open>GET /devis/:id\<close>.\<close>

definition detail_catch :: "js_error \<Rightarrow> response" where
  "detail_catch e =
     (if includes_str (message e) ''HTTP 404'' then error_response 404 ''not_found''
      else error_response 500 ''server_error'')"

text \<open>
  \<^verbatim>\<open>legacy && !String(rawId).startsWith("gid://") ? `gid://shopify/DraftOrder/${legacy}` : rawId\<close>
\<close>

definition detail_gid :: "string \<Rightarrow> string" where
  "detail_gid rawId =
     (case gidToLegacyId (QStr rawId) of
        None \<Rightarrow> rawId
      | Some legacy \<Rightarrow>
          if legacy \<noteq> [] \<and> \<not> startsWith rawId ''gid://''
          then ''gid://shopify/DraftOrder/'' @ legacy
          else rawId)"

text \<open>\<^verbatim>\<open>GET /devis/:id\<close>\<close>

definition devis_detail ::
  "node_rt \<Rightarrow> env \<Rightarrow> (fetch_request \<Rightarrow> fetch_outcome) \<Rightarrow> request
     \<Rightarrow> response \<times> fetch_request list" where
  "devis_detail rt ev fetch req =
     (if \<not> verifyProxy rt ev req then (error_response 401 ''invalid_signature'', [])
      else
        let rawId = params_id req;
            includeItems = includeItems_of req;
            gid = detail_gid rawId;
            (calls, result) =
               adminGraphQL rt ev fetch (detail_query includeItems) (JObj [(''id'', JStr gid)])
        in
        (case result of
           Inl e \<Rightarrow> (detail_catch e, calls)
         | Inr data \<Rightarrow>
             let n = opt_get data ''draftOrder'' in
             if \<not> js_truthy n then (error_response 404 ''not_found'', calls)
             else
               (case mapDraftOrderNode n includeItems of
                  Inl e \<Rightarrow> (detail_catch e, calls)
                | Inr quote \<Rightarrow> (no_cache_json (JObj [(''quote'', quote)]), calls))))"

section \<open>The node mapping in the words of the specification\<close>

text \<open>
  A draft-order node as the upstream sends it for the queries above: a JSON object; the
  amount and the currency code of its presentment money are not arrays or objects; its line
  items, when there are any, are a list of edges that each hold a node.
\<close>

definition is_object :: "jsval \<Rightarrow> bool" where
  "is_object v = (case v of JObj kvs \<Rightarrow> True | _ \<Rightarrow> False)"

definition primitive :: "jsval \<Rightarrow> bool" where
  "primitive v = (case v of JArr xs \<Rightarrow> False | JObj kvs \<Rightarrow> False | _ \<Rightarrow> True)"

definition presentmentMoney :: "jsval \<Rightarrow> jsval" where
  "presentmentMoney node = opt_get (own_property node ''totalPriceSet'') ''presentmentMoney''"

definition line_edges :: "jsval \<Rightarrow> jsval list option" where
  "line_edges node =
     (let edges = own_property (own_property node ''lineItems'') ''edges'' in
      if \<not> js_truthy edges then Some []
      else (case edges of JArr es \<Rightarrow> Some es | _ \<Rightarrow> None))"

definition draft_order_node :: "jsval \<Rightarrow> bool" where
  "draft_order_node node =
     (is_object node
      \<and> (\<not> js_truthy (presentmentMoney node)
           \<or> primitive (own_property (presentmentMoney node) ''amount'')
              \<and> primitive (own_property (presentmentMoney node) ''currencyCode''))
      \<and> (\<not> js_truthy (own_property node ''lineItems'')
           \<or> (case line_edges node of
                 None \<Rightarrow> False
               | Some es \<Rightarrow>
                   list_all (\<lambda>e. \<not> nullish e \<and> \<not> nullish (own_property e ''node'')) es)))"

text \<open>\<^verbatim>\<open>Object.keys\<close> of a record: the fields it has, whatever their values.\<close>

fun own_keys :: "jsval \<Rightarrow> string list" where
  "own_keys (JObj kvs) = map fst kvs"
| "own_keys _ = []"

text \<open>
  The specification's mapping of one line item: title and quantity as they are, the variant
  title defaulted to the empty string.
\<close>

definition spec_lineItem :: "jsval \<Rightarrow> jsval" where
  "spec_lineItem edge =
     (let li = own_property edge ''node''; vt = own_property li ''variantTitle'' in
      JObj [(''title'', own_property li ''title''),
            (''quantity'', own_property li ''quantity''),
            (''variantTitle'', if js_truthy vt then vt else JStr [])])"

text \<open>The text of a value that converts without raising.\<close>

definition text_of :: "jsval \<Rightarrow> string" where
  "text_of v = (case js_ToString v of Inl e \<Rightarrow> [] | Inr s \<Rightarrow> s)"

definition spec_total :: "jsval \<Rightarrow> jsval" where
  "spec_total node =
     (let pm = presentmentMoney node in
      if js_truthy pm
      then JStr (text_of (own_property pm ''amount'') @ '' ''
                 @ text_of (own_property pm ''currencyCode''))
      else Null)"

definition spec_record :: "jsval \<Rightarrow> bool \<Rightarrow> jsval" where
  "spec_record node includeItems =
     JObj ([(''id'', own_property node ''id''),
            (''legacyResourceId'', own_property node ''legacyResourceId''),
            (''name'', own_property node ''name''),
            (''createdAt'', own_property node ''createdAt''),
            (''status'', own_property node ''status''),
            (''invoiceUrl'', own_property node ''invoiceUrl''),
            (''total'', spec_total node)]
           @ (if includeItems \<and> js_truthy (own_property node ''lineItems'')
              then [(''lineItems'', JArr (map spec_lineItem (the (line_edges node))))]
              else []))"

section \<open>Assumptions on the runtime\<close>

text \<open>An HMAC-SHA256 digest has 32 bytes.\<close>

definition sha256_sized :: "node_rt \<Rightarrow> bool" where
  "sha256_sized rt = (\<forall>k m. length (hmac_sha256 rt k m) = 32)"

section \<open>Sample inputs\<close>

text \<open>
  A runtime, a configuration and requests on which the theorems below are instantiated. The
  sample keyed digest (key and message padded to 32 bytes) stands in for HMAC-SHA256; no
  theorem depends on it.
\<close>

definition sample_rt :: node_rt where
  "sample_rt =
     \<lparr> hmac_sha256 = (\<lambda>k m. take 32 (k @ m @ replicate 32 0)),
       buffer_from_array = (\<lambda>xs. replicate (length xs) 0),
       json_stringify = (\<lambda>v. ''null'') \<rparr>"

definition sample_env :: env where
  "sample_env =
     \<lparr> APP_PROXY_SHARED_SECRET = Some ''s3cret'',
       SHOP_DOMAIN = Some ''shop.example'',
       ADMIN_API_VERSION = Some ''2024-01'',
       ADMIN_ACCESS_TOKEN = Some ''tok'' \<rparr>"


definition header_map :: "(string \<times> string) list \<Rightarrow> string \<Rightarrow> string option" where
  "header_map hs = map_of hs"

text \<open>Signed over the raw path, in the first header.\<close>

definition req_signed :: request where
  "req_signed =
     \<lparr> headers = header_map [(''x-shopify-proxy-signature'',
                                 hmacBase64 sample_rt ''s3cret'' ''/devis?customer_id=123'')],
       query = [(''customer_id'', QStr ''123'')],
       originalUrl = ''/devis?customer_id=123'',
       params_id = [] \<rparr>"

text \<open>Signed over the path under \<^verbatim>\<open>/apps\<close>, in the second header.\<close>

definition req_signed_apps :: request where
  "req_signed_apps =
     \<lparr> headers = header_map [(''x-shopify-hmac-sha256'',
                                 hmacBase64 sample_rt ''s3cret'' ''/apps/devis?customer_id=123'')],
       query = [(''customer_id'', QStr ''123'')],
       originalUrl = ''/devis?customer_id=123'',
       params_id = [] \<rparr>"

text \<open>The legacy scheme: \<^verbatim>\<open>{b: "2", a: "1", signature: <hex over "a=1b=2">}\<close>.\<close>

definition req_legacy :: request where
  "req_legacy =
     \<lparr> headers = header_map [],
       query = [(''b'', QStr ''2''), (''signature'', QStr (hmacHex sample_rt ''s3cret'' ''a=1b=2'')),
                (''a'', QStr ''1'')],
       originalUrl = ''/devis?b=2&signature=x&a=1'',
       params_id = [] \<rparr>"

definition req_unsigned :: request where
  "req_unsigned =
     \<lparr> headers = header_map [],
       query = [(''customer_id'', QStr ''123'')],
       originalUrl = ''/devis?customer_id=123'',
       params_id = ''123'' \<rparr>"


text \<open>Two valid headers, and a first header that is not the signature beside a valid second.\<close>

definition req_first_header_wrong :: request where
  "req_first_header_wrong =
     \<lparr> headers = header_map [(''x-shopify-proxy-signature'', ''AAAA''),
                               (''x-shopify-hmac-sha256'',
                                 hmacBase64 sample_rt ''s3cret'' ''/devis?customer_id=123'')],
       query = [(''customer_id'', QStr ''123'')],
       originalUrl = ''/devis?customer_id=123'',
       params_id = [] \<rparr>"

text \<open>The keys U+FF61 and U+1F600, in UTF-8.\<close>

definition key_halfwidth :: string where
  "key_halfwidth = [CHR 0xEF, CHR 0xBD, CHR 0xA1]"

definition key_astral :: string where
  "key_astral = [CHR 0xF0, CHR 0x9F, CHR 0x98, CHR 0x80]"




definition fetch_unreachable :: "fetch_request \<Rightarrow> fetch_outcome" where
  "fetch_unreachable rq = FetchRejected (TypeError ''fetch failed'')"

definition sample_node :: jsval where
  "sample_node =
     JObj [(''id'', JStr ''gid://shopify/DraftOrder/7''),
           (''legacyResourceId'', JStr ''7''),
           (''name'', JStr ''#D7''),
           (''createdAt'', JStr ''2024-01-01T00:00:00Z''),
           (''status'', JStr ''OPEN''),
           (''invoiceUrl'', Null),
           (''totalPriceSet'',
              JObj [(''presentmentMoney'',
                       JObj [(''amount'', JStr ''10.00''), (''currencyCode'', JStr ''USD'')])]),
           (''lineItems'',
              JObj [(''edges'',
                       JArr [JObj [(''node'',
                                      JObj [(''title'', JStr ''Table''), (''quantity'', JNum 2),
                                            (''variantTitle'', Null)])]])])]"

text \<open>A node on which the upstream has left out both identifiers and the price.\<close>

definition node_without_ids :: jsval where
  "node_without_ids = JObj [(''name'', JStr ''#D8'')]"

text \<open>A node whose list of line-item edges holds \<^verbatim>\<open>null\<close>.\<close>

definition node_null_edge :: jsval where
  "node_null_edge = JObj [(''lineItems'', JObj [(''edges'', JArr [Null])])]"

text \<open>A request to \<^verbatim>\<open>url\<close> signed over the raw path, with the given query and route id.\<close>

definition signed :: "string \<Rightarrow> (string \<times> qval) list \<Rightarrow> string \<Rightarrow> request" where
  "signed url q pid =
     \<lparr> headers = header_map [(''x-shopify-proxy-signature'', hmacBase64 sample_rt ''s3cret'' url)],
       query = q,
       originalUrl = url,
       params_id = pid \<rparr>"





definition req_detail_numeric :: request where
  "req_detail_numeric = signed ''/devis/42'' [] ''42''"

definition req_detail_word :: request where
  "req_detail_word = signed ''/devis/abc?include=items'' [(''include'', QStr ''items'')] ''abc''"

text \<open>An upstream that answers every request with the given status and body text.\<close>

definition fetch_status :: "nat \<Rightarrow> string \<Rightarrow> fetch_request \<Rightarrow> fetch_outcome" where
  "fetch_status code body rq =
     FetchResolved \<lparr> resp_status = code, resp_text = Inr body,
                     resp_json = Inl (Error ''Unexpected token in JSON'') \<rparr>"

text \<open>An upstream that answers every request with status 200 and the given JSON.\<close>

definition fetch_json :: "jsval \<Rightarrow> fetch_request \<Rightarrow> fetch_outcome" where
  "fetch_json v rq =
     FetchResolved \<lparr> resp_status = 200, resp_text = Inr [], resp_json = Inr v \<rparr>"

section \<open>Facts about the primitives\<close>

lemma unat_byte_of_char: "unat (of_nat (of_char c) :: byte) = of_char c"
proof -
  have "(of_char c :: nat) < 2 ^ LENGTH(8)"
    using nat_of_char_less_256 [of c] by simp
  then show ?thesis by (simp only: unat_of_nat mod_less)
qed

lemma utf8_inj: "utf8 a = utf8 b \<longleftrightarrow> a = b"
proof -
  have "inj (\<lambda>c::char. (of_nat (of_char c) :: byte))"
  proof (rule injI)
    fix x y :: char
    assume "(of_nat (of_char x) :: byte) = of_nat (of_char y)"
    then have "unat (of_nat (of_char x) :: byte) = unat (of_nat (of_char y) :: byte)"
      by (rule arg_cong)
    then have "(of_char x :: nat) = of_char y"
      by (simp only: unat_byte_of_char)
    then show "x = y" by simp
  qed
  then show ?thesis unfolding utf8_def by (simp add: inj_map_eq_map)
qed

lemma safeEqual_str: "safeEqual rt (QStr a) b \<longleftrightarrow> a = b"
proof -
  have "length (utf8 a) \<noteq> length (utf8 b) \<Longrightarrow> a \<noteq> b" by auto
  then show ?thesis
    by (auto simp: safeEqual_def safeEqual_try_def timingSafeEqual_def utf8_inj)
qed

lemma join_empty: "join [] xs = concat xs"
  by (induction "[]::string" xs rule: join.induct) simp_all

lemma insort_key_map:
  "insort_key f (g x) (map g ys) = map g (insort_key (\<lambda>y. f (g y)) x ys)"
  by (induction ys) simp_all

lemma sort_key_map: "sort_key f (map g xs) = map g (sort_key (\<lambda>y. f (g y)) xs)"
  by (induction xs) (simp_all add: insort_key_map)

lemma sorted_params_by_key:
  assumes "distinct (map fst r)"
  shows "sorted_params r
         = concat (map (\<lambda>(k, v). k @ ''='' @ q_ToString v)
                       (sort_key (\<lambda>kv. utf16_units (fst kv)) r))"
proof -
  have "map (\<lambda>k. k @ ''='' @ (case map_of r k of None \<Rightarrow> ''undefined'' | Some v \<Rightarrow> q_ToString v))
            (map fst (sort_key (\<lambda>kv. utf16_units (fst kv)) r))
        = map (\<lambda>(k, v). k @ ''='' @ q_ToString v) (sort_key (\<lambda>kv. utf16_units (fst kv)) r)"
    unfolding map_map
  proof (rule map_cong [OF refl])
    fix kv assume "kv \<in> set (sort_key (\<lambda>kv. utf16_units (fst kv)) r)"
    then have "(fst kv, snd kv) \<in> set r" by simp
    then have "map_of r (fst kv) = Some (snd kv)"
      using assms by (rule map_of_is_SomeI [rotated])
    then show "((\<lambda>k. k @ ''='' @ (case map_of r k of None \<Rightarrow> ''undefined'' | Some v \<Rightarrow> q_ToString v)) \<circ> fst) kv
               = (case kv of (k, v) \<Rightarrow> k @ ''='' @ q_ToString v)"
      by (cases kv) simp
  qed
  then show ?thesis
    by (simp only: sorted_params_def join_empty sort_key_map)
qed

text \<open>
  The order is that of the code units, not of the bytes: U+1F600 (units D83D DE00) comes
  before U+FF61, though its first byte F0 is above EF.
\<close>

lemma sorted_params_code_units:
  "utf16_units key_astral = [0xD83D, 0xDE00]
   \<and> utf16_units key_halfwidth = [0xFF61]
   \<and> sorted_params [(key_halfwidth, QStr ''2''), (key_astral, QStr ''1'')]
       = key_astral @ ''=1'' @ key_halfwidth @ ''=2''"
  by code_simp

lemma hex_encode_length: "length (hex_encode d) = 2 * length d"
  by (induction d) (simp_all add: hex_encode_def)


lemma raw2_apps: "raw2 u = ''/apps'' @ (if take 1 u = ''/'' then [] else ''/'') @ u"
  by (simp add: raw2_def startsWith_def)

section \<open>Signature verification: the claims\<close>

text \<open>
  C1, as stated, fails. A request may carry its signature in either header; when
  \<^verbatim>\<open>x-shopify-proxy-signature\<close> holds a non-empty value that is not the signature and
  \<^verbatim>\<open>x-shopify-hmac-sha256\<close> holds the base64 HMAC-SHA256 of the raw path and query,
  \<^verbatim>\<open>verifyProxy\<close> returns false: \<^verbatim>\<open>h1 || h2\<close> never looks at the second header.
\<close>

theorem verifyProxy_second_header_counterexample:
  "APP_PROXY_SHARED_SECRET sample_env = Some ''s3cret''
   \<and> headers req_first_header_wrong ''x-shopify-hmac-sha256''
       = Some (base64_encode (hmac_sha256 sample_rt (utf8 ''s3cret'')
                 (utf8 (originalUrl req_first_header_wrong))))
   \<and> \<not> verifyProxy sample_rt sample_env req_first_header_wrong"
  by code_simp

text \<open>
  C1, amended. Let the secret be non-empty and let \<open>h\<close> be the header value that is compared:
  the value of \<^verbatim>\<open>x-shopify-proxy-signature\<close>, or that of \<^verbatim>\<open>x-shopify-hmac-sha256\<close>
  when the first header is absent or empty. If \<open>h\<close> is not empty and is the base64
  HMAC-SHA256 of the raw path and query string, or that of the same string under
  \<^verbatim>\<open>/apps\<close>, a \<^verbatim>\<open>/\<close> being put in between exactly when the raw string does not start
  with one, then \<^verbatim>\<open>verifyProxy\<close> returns true.
\<close>

theorem verifyProxy_accepts_header:
  assumes secret: "APP_PROXY_SHARED_SECRET ev = Some secret" "secret \<noteq> []"
    and header:
      "headers req ''x-shopify-proxy-signature'' = Some h
       \<or> (headers req ''x-shopify-proxy-signature'' = None
            \<or> headers req ''x-shopify-proxy-signature'' = Some [])
           \<and> headers req ''x-shopify-hmac-sha256'' = Some h"
    and nonempty: "h \<noteq> []"
    and sig:
      "h = base64_encode (hmac_sha256 rt (utf8 secret) (utf8 (originalUrl req)))
       \<or> h = base64_encode (hmac_sha256 rt (utf8 secret)
                (utf8 (''/apps'' @ (if take 1 (originalUrl req) = ''/'' then [] else ''/'')
                       @ originalUrl req)))"
  shows "verifyProxy rt ev req"
proof -
  have hs: "headerSig req = Some h"
    using header nonempty by (auto simp: headerSig_def)
  have "safeEqual rt (QStr h) (hmacBase64 rt secret (originalUrl req))
        \<or> safeEqual rt (QStr h) (hmacBase64 rt secret (raw2 (originalUrl req)))"
    using sig unfolding safeEqual_str hmacBase64_def raw2_apps by blast
  then show ?thesis
    using secret hs nonempty by (auto simp: verifyProxy_def)
qed

text \<open>
  The two requests of the specification: \<^verbatim>\<open>/devis?customer_id=123\<close> signed as it is,
  and signed as \<^verbatim>\<open>/apps/devis?customer_id=123\<close>.
\<close>

theorem verifyProxy_accepts_header_witness:
  "verifyProxy sample_rt sample_env req_signed \<and> verifyProxy sample_rt sample_env req_signed_apps"
proof -
  have s: "APP_PROXY_SHARED_SECRET sample_env = Some ''s3cret''" "''s3cret'' \<noteq> []"
    by (simp_all add: sample_env_def)
  let ?h1 = "hmacBase64 sample_rt ''s3cret'' ''/devis?customer_id=123''"
  let ?h2 = "hmacBase64 sample_rt ''s3cret'' ''/apps/devis?customer_id=123''"
  have n1: "?h1 \<noteq> []" and n2: "?h2 \<noteq> []" by code_simp+
  have a: "verifyProxy sample_rt sample_env req_signed"
    by (rule verifyProxy_accepts_header [OF s _ n1])
       (simp_all add: req_signed_def header_map_def hmacBase64_def)
  have b: "verifyProxy sample_rt sample_env req_signed_apps"
    by (rule verifyProxy_accepts_header [OF s _ n2])
       (simp_all add: req_signed_apps_def header_map_def hmacBase64_def)
  from a b show ?thesis ..
qed

text \<open>
  C2. Let the secret be non-empty, the query carry a \<^verbatim>\<open>signature\<close> parameter \<open>l\<close>, and no
  header comparison succeed. Take the parameters without \<^verbatim>\<open>signature\<close>, sort them by
  key (as strings, in the order of their UTF-16 code units), concatenate them as \<^verbatim>\<open>key=value\<close> with nothing in between, and let \<open>hex\<close> be the
  hexadecimal HMAC-SHA256 of that string. Then \<^verbatim>\<open>verifyProxy\<close> returns true exactly when
  the constant-time comparison of \<open>l\<close> with \<open>hex\<close> does, which for a string \<open>l\<close> means
  \<open>l = hex\<close>. The digest has 32 bytes, and a parsed query has each key once.
\<close>

theorem verifyProxy_legacy:
  assumes secret: "APP_PROXY_SHARED_SECRET ev = Some secret" "secret \<noteq> []"
    and sized: "sha256_sized rt"
    and keys: "distinct (map fst (query req))"
    and legacy: "map_of (query req) ''signature'' = Some l"
    and no_header:
      "\<forall>h. headerSig req = Some h \<and> h \<noteq> [] \<longrightarrow>
           h \<noteq> hmacBase64 rt secret (originalUrl req)
           \<and> h \<noteq> hmacBase64 rt secret (raw2 (originalUrl req))"
  shows
    "let remaining = filter (\<lambda>(k, v). k \<noteq> ''signature'') (query req);
         msg = concat (map (\<lambda>(k, v). k @ ''='' @ q_ToString v)
                           (sort_key (\<lambda>kv. utf16_units (fst kv)) remaining));
         hex = hex_encode (hmac_sha256 rt (utf8 secret) (utf8 msg))
     in (verifyProxy rt ev req \<longleftrightarrow> safeEqual rt l hex)
        \<and> (\<forall>s. l = QStr s \<longrightarrow> (verifyProxy rt ev req \<longleftrightarrow> s = hex))"
proof -
  have r: "rest req = filter (\<lambda>(k, v). k \<noteq> ''signature'') (query req)"
    by (simp add: rest_def case_prod_unfold)
  have "distinct (map fst (rest req))"
    using keys by (simp add: rest_def distinct_map_filter)
  then have msg: "sorted_params (rest req)
      = concat (map (\<lambda>(k, v). k @ ''='' @ q_ToString v)
                    (sort_key (\<lambda>kv. utf16_units (fst kv)) (rest req)))"
    by (rule sorted_params_by_key)
  define hex where "hex = hmacHex rt secret (sorted_params (rest req))"
  have "length hex = 64"
    using sized by (simp add: hex_def hmacHex_def hex_encode_length sha256_sized_def)
  then have falsy: "\<not> q_truthy l \<Longrightarrow> \<not> safeEqual rt l hex"
    by (cases l) (auto simp: safeEqual_str)
  have hdr: "\<not> (case headerSig req of
                 None \<Rightarrow> False
               | Some h \<Rightarrow>
                   if h = [] then False
                   else if safeEqual rt (QStr h) (hmacBase64 rt secret (originalUrl req)) then True
                   else safeEqual rt (QStr h) (hmacBase64 rt secret (raw2 (originalUrl req))))"
    using no_header by (auto simp: safeEqual_str split: option.splits)
  have v: "verifyProxy rt ev req \<longleftrightarrow> safeEqual rt l hex"
    using secret hdr legacy falsy
    by (auto simp: verifyProxy_def legacySig_def hex_def Let_def)
  show ?thesis
    using v msg unfolding hex_def hmacHex_def r
    by (simp add: Let_def safeEqual_str)
qed

text \<open>The request \<^verbatim>\<open>{b: "2", signature: <hex>, a: "1"}\<close> is signed over \<^verbatim>\<open>a=1b=2\<close>.\<close>

theorem verifyProxy_legacy_witness:
  "verifyProxy sample_rt sample_env req_legacy
   \<and> concat (map (\<lambda>(k, v). k @ ''='' @ q_ToString v)
         (sort_key (\<lambda>kv. utf16_units (fst kv))
            (filter (\<lambda>(k, v). k \<noteq> ''signature'') (query req_legacy)))) = ''a=1b=2''"
proof -
  have s: "APP_PROXY_SHARED_SECRET sample_env = Some ''s3cret''" "''s3cret'' \<noteq> []"
    by (simp_all add: sample_env_def)
  have sized: "sha256_sized sample_rt"
    by (auto simp: sha256_sized_def sample_rt_def min_def)
  have keys: "distinct (map fst (query req_legacy))"
    by (simp add: req_legacy_def)
  have legacy: "map_of (query req_legacy) ''signature''
                  = Some (QStr (hmacHex sample_rt ''s3cret'' ''a=1b=2''))"
    by (simp add: req_legacy_def)
  have no_header: "\<forall>h. headerSig req_legacy = Some h \<and> h \<noteq> [] \<longrightarrow>
           h \<noteq> hmacBase64 sample_rt ''s3cret'' (originalUrl req_legacy)
           \<and> h \<noteq> hmacBase64 sample_rt ''s3cret'' (raw2 (originalUrl req_legacy))"
    by (simp add: headerSig_def req_legacy_def header_map_def)
  have msg: "concat (map (\<lambda>(k, v). k @ ''='' @ q_ToString v)
              (sort_key (\<lambda>kv. utf16_units (fst kv))
            (filter (\<lambda>(k, v). k \<noteq> ''signature'') (query req_legacy)))) = ''a=1b=2''"
    by code_simp
  have "verifyProxy sample_rt sample_env req_legacy \<longleftrightarrow>
          hmacHex sample_rt ''s3cret'' ''a=1b=2''
          = hex_encode (hmac_sha256 sample_rt (utf8 ''s3cret'')
              (utf8 (concat (map (\<lambda>(k, v). k @ ''='' @ q_ToString v)
                 (sort_key (\<lambda>kv. utf16_units (fst kv))
            (filter (\<lambda>(k, v). k \<noteq> ''signature'') (query req_legacy)))))))"
    using verifyProxy_legacy [OF s sized keys legacy no_header]
    by (simp add: Let_def safeEqual_str)
  then have "verifyProxy sample_rt sample_env req_legacy"
    by (simp only: msg hmacHex_def)
  then show ?thesis using msg by (rule conjI)
qed






lemma not_nullish_qval: "\<not> nullish (jsval_of_qval v)"
  by (cases v) simp_all

lemma js_elements_qval:
  assumes "\<And>x. x \<in> set xs \<Longrightarrow> js_ToString (jsval_of_qval x) = Inr (q_ToString x)"
  shows "js_elements (map jsval_of_qval xs) = Inr (map q_ToString xs)"
  using assms
proof (induction xs)
  case Nil
  show ?case by simp
next
  case (Cons x xs)
  have 1: "js_ToString (jsval_of_qval x) = Inr (q_ToString x)"
    using Cons.prems by simp
  have 2: "js_elements (map jsval_of_qval xs) = Inr (map q_ToString xs)"
    using Cons.IH Cons.prems by simp
  show ?case
    by (simp add: 1 2 bindE_def not_nullish_qval)
qed

lemma js_ToString_qval: "js_ToString (jsval_of_qval v) = Inr (q_ToString v)"
proof (induction v)
  case (QStr s)
  show ?case by simp
next
  case (QArr xs)
  have "js_elements (map jsval_of_qval xs) = Inr (map q_ToString xs)"
    by (rule js_elements_qval) (rule QArr.IH)
  then show ?case by (simp add: bindE_def)
qed

lemma mapE_Inr:
  assumes "\<And>x. x \<in> set xs \<Longrightarrow> f x = Inr (g x)"
  shows "mapE f xs = Inr (map g xs)"
  using assms
proof (induction xs)
  case Nil
  show ?case by simp
next
  case (Cons x xs)
  have 1: "f x = Inr (g x)"
    using Cons.prems by simp
  have 2: "mapE f xs = Inr (map g xs)"
    using Cons.IH Cons.prems by simp
  show ?case
    by (simp add: 1 2 bindE_def)
qed

lemma map_of_nested_query:
  "map_of (nested_query q) k = map_option jsval_of_qval (map_of q k)"
  by (induction q) (simp_all add: nested_query_def)

lemma rest_nested_query: "rest_nested (nested_query (query req)) = nested_query (rest req)"
  by (simp add: rest_nested_def nested_query_def rest_def filter_map comp_def)

lemma sorted_params_nested_query:
  "sorted_params_nested (nested_query r) = Inr (sorted_params r)"
proof -
  have keys: "map fst (nested_query r) = map fst r"
    by (simp add: nested_query_def comp_def)
  have "mapE (\<lambda>k. bindE (js_ToString (case map_of (nested_query r) k of
                                          None \<Rightarrow> Undefined | Some v \<Rightarrow> v))
                          (\<lambda>s. Inr (k @ ''='' @ s)))
             (sort_key utf16_units (map fst r))
        = Inr (map (\<lambda>k. k @ ''='' @ (case map_of r k of None \<Rightarrow> ''undefined''
                                       | Some v \<Rightarrow> q_ToString v))
                   (sort_key utf16_units (map fst r)))"
    by (rule mapE_Inr)
       (simp add: map_of_nested_query bindE_def js_ToString_qval split: option.splits)
  then show ?thesis
    by (simp add: sorted_params_nested_def sorted_params_def keys bindE_def)
qed

lemma safeEqual_nested_str: "safeEqual_nested bf (JStr a) b = safeEqual rt (QStr a) b"
  by (simp add: safeEqual_nested_def safeEqual_nested_try_def Buffer_from_nested_def bindE_def
        safeEqual_def safeEqual_try_def)

lemma safeEqual_nested_qval:
  assumes "\<And>xs. bf (JArr (map jsval_of_qval xs)) = Inr (buffer_from_array rt xs)"
  shows "safeEqual_nested bf (jsval_of_qval l) b = safeEqual rt l b"
  using assms
  by (cases l)
     (simp_all add: safeEqual_nested_def safeEqual_nested_try_def Buffer_from_nested_def bindE_def
        safeEqual_def safeEqual_try_def)

lemma js_truthy_qval: "js_truthy (jsval_of_qval l) = q_truthy l"
  by (cases l) simp_all

text \<open>
  On a query of strings and arrays the two embeddings of \<^verbatim>\<open>verifyProxy\<close> agree, once
  \<open>bf\<close> makes of an array the bytes that \<^term>\<open>buffer_from_array\<close> makes of it.
\<close>

lemma verifyProxy_nested_query:
  assumes "\<And>xs. bf (JArr (map jsval_of_qval xs)) = Inr (buffer_from_array rt xs)"
  shows "verifyProxy_nested rt bf ev req (nested_query (query req)) = Inr (verifyProxy rt ev req)"
proof -
  have legacy: "(case map_of (nested_query (query req)) ''signature'' of
             None \<Rightarrow> Inr False
           | Some l \<Rightarrow>
               if \<not> js_truthy l then Inr False
               else
                 bindE (sorted_params_nested (rest_nested (nested_query (query req)))) (\<lambda>sorted.
                   Inr (safeEqual_nested bf l (hmacHex rt secret sorted))))
        = (Inr (case legacySig req of
             None \<Rightarrow> False
           | Some l \<Rightarrow>
               if \<not> q_truthy l then False
               else safeEqual rt l (hmacHex rt secret (sorted_params (rest req)))) :: js_error + bool)"
    for secret
    by (cases "map_of (query req) ''signature''")
       (simp_all add: map_of_nested_query legacySig_def rest_nested_query
          sorted_params_nested_query bindE_def js_truthy_qval safeEqual_nested_qval [OF assms])
  show ?thesis
    unfolding verifyProxy_nested_def verifyProxy_def Let_def legacy
      safeEqual_nested_str [of bf _ _ rt]
    by simp
qed




text \<open>
  C8. When \<^verbatim>\<open>verifyProxy\<close> returns false, both endpoints answer 401 with the error
  \<^verbatim>\<open>invalid_signature\<close> and send no request upstream, whatever \<^verbatim>\<open>fetch\<close> would do.
\<close>

theorem invalid_signature_401:
  assumes "\<not> verifyProxy rt ev req"
  shows "devis_list rt ev fetch req = (error_response 401 ''invalid_signature'', [])
         \<and> devis_detail rt ev fetch req = (error_response 401 ''invalid_signature'', [])
         \<and> res_status (error_response 401 ''invalid_signature'') = 401
         \<and> res_body (error_response 401 ''invalid_signature'')
             = JObj [(''error'', JStr ''invalid_signature'')]"
  using assms by (simp add: devis_list_def devis_detail_def error_response_def)

theorem invalid_signature_401_witness:
  "devis_list sample_rt sample_env fetch_unreachable req_unsigned
     = (error_response 401 ''invalid_signature'', [])
   \<and> devis_detail sample_rt sample_env fetch_unreachable req_unsigned
     = (error_response 401 ''invalid_signature'', [])"
proof -
  have "\<not> verifyProxy sample_rt sample_env req_unsigned"
    by code_simp
  from invalid_signature_401 [OF this, of fetch_unreachable] show ?thesis
    by simp
qed

section \<open>The node mapping\<close>

lemma mapE_lineItem:
  assumes "list_all (\<lambda>e. \<not> nullish e \<and> \<not> nullish (own_property e ''node'')) es"
  shows "mapE lineItem es = Inr (map spec_lineItem es)"
  using assms
  by (induction es) (simp_all add: lineItem_def spec_lineItem_def js_get_def bindE_def Let_def)

lemma js_ToString_primitive: "primitive v \<Longrightarrow> js_ToString v = Inr (text_of v)"
  by (cases v) (simp_all add: primitive_def text_of_def)

lemma total_of_node:
  assumes "draft_order_node node"
  shows "total_of node = Inr (spec_total node)"
proof -
  obtain kvs where n: "node = JObj kvs"
    using assms by (cases node) (simp_all add: draft_order_node_def is_object_def)
  show ?thesis
  proof (cases "js_truthy (presentmentMoney node)")
    case False
    then show ?thesis
      by (simp add: total_of_def spec_total_def presentmentMoney_def js_get_def bindE_def n Let_def)
  next
    case True
    then have p: "primitive (own_property (presentmentMoney node) ''amount'')"
                 "primitive (own_property (presentmentMoney node) ''currencyCode'')"
      using assms by (simp_all add: draft_order_node_def)
    have nn: "\<not> nullish (presentmentMoney node)"
      using True by (cases "presentmentMoney node") simp_all
    show ?thesis
      using True nn js_ToString_primitive [OF p(1)] js_ToString_primitive [OF p(2)]
      by (simp add: total_of_def spec_total_def presentmentMoney_def js_get_def bindE_def n Let_def)
  qed
qed

lemma lineItems_of_node:
  assumes "draft_order_node node"
  shows "lineItems_of node inc =
           Inr (if inc \<and> js_truthy (own_property node ''lineItems'')
                then [(''lineItems'', JArr (map spec_lineItem (the (line_edges node))))]
                else [])"
proof -
  obtain kvs where n: "node = JObj kvs"
    using assms by (cases node) (simp_all add: draft_order_node_def is_object_def)
  show ?thesis
  proof (cases "inc \<and> js_truthy (own_property node ''lineItems'')")
    case False
    then show ?thesis
      by (auto simp: lineItems_of_def js_get_def bindE_def n)
  next
    case True
    then obtain es where es: "line_edges node = Some es"
      and all: "list_all (\<lambda>e. \<not> nullish e \<and> \<not> nullish (own_property e ''node'')) es"
      using assms by (auto simp: draft_order_node_def split: option.splits)
    have nn: "\<not> nullish (own_property node ''lineItems'')"
      using True by (cases "own_property node ''lineItems''") simp_all
    have "js_map lineItem
            (if js_truthy (own_property (own_property node ''lineItems'') ''edges'')
             then own_property (own_property node ''lineItems'') ''edges'' else JArr [])
          = Inr (map spec_lineItem es)"
      using es mapE_lineItem [OF all]
      by (auto simp: line_edges_def js_map_def Let_def split: if_splits jsval.splits)
    moreover have "\<not> nullish node"
      by (simp add: n)
    ultimately show ?thesis
      using True nn es by (simp add: lineItems_of_def js_get_def bindE_def)
  qed
qed

lemma mapDraftOrderNode_spec:
  assumes "draft_order_node node"
  shows "mapDraftOrderNode node inc = Inr (spec_record node inc)"
proof -
  obtain kvs where n: "node = JObj kvs"
    using assms by (cases node) (simp_all add: draft_order_node_def is_object_def)
  have g: "\<And>k. js_get node k = Inr (own_property node k)"
    by (simp add: js_get_def n)
  show ?thesis
    unfolding mapDraftOrderNode_def spec_record_def g total_of_node [OF assms]
      lineItems_of_node [OF assms]
    by (simp add: bindE_def)
qed

lemma own_property_missing: "k \<notin> set (own_keys v) \<Longrightarrow> own_property v k = Undefined"
  by (cases v) (simp_all add: map_of_eq_None_iff [THEN iffD2])

text \<open>
  The line items are read without a check: with the items included, a \<^verbatim>\<open>null\<close> among
  the edges makes the mapping raise. Such a list is not one the upstream's schema allows.
\<close>

lemma mapDraftOrderNode_null_edge:
  "mapDraftOrderNode node_null_edge True
     = Inl (TypeError ''Cannot read properties of undefined or null: node'')"
  by code_simp

text \<open>
  C5, as stated, fails. On a node without \<^verbatim>\<open>id\<close> and \<^verbatim>\<open>legacyResourceId\<close> the record
  holds \<^verbatim>\<open>undefined\<close> in both fields, not \<^verbatim>\<open>null\<close>.
\<close>

theorem mapDraftOrderNode_missing_id_counterexample:
  "mapDraftOrderNode node_without_ids False
     = Inr (JObj [(''id'', Undefined), (''legacyResourceId'', Undefined),
                  (''name'', JStr ''#D8''), (''createdAt'', Undefined),
                  (''status'', Undefined), (''invoiceUrl'', Undefined), (''total'', Null)])
   \<and> Undefined \<noteq> Null"
  by code_simp

text \<open>
  C5, amended. On every well-formed draft-order node the mapping produces a record and does
  not raise. The record always has the fields \<^verbatim>\<open>id\<close> and \<^verbatim>\<open>legacyResourceId\<close>, each
  holding what the node holds: \<^verbatim>\<open>undefined\<close> when the upstream has left the identifier
  out, and \<^verbatim>\<open>null\<close> only when the upstream has sent \<^verbatim>\<open>null\<close>.
\<close>

theorem mapDraftOrderNode_identifiers:
  assumes "draft_order_node node"
  shows "\<exists>r. mapDraftOrderNode node inc = Inr r
           \<and> ''id'' \<in> set (own_keys r) \<and> ''legacyResourceId'' \<in> set (own_keys r)
           \<and> own_property r ''id'' = own_property node ''id''
           \<and> own_property r ''legacyResourceId'' = own_property node ''legacyResourceId''
           \<and> (''id'' \<notin> set (own_keys node) \<longrightarrow> own_property r ''id'' = Undefined)
           \<and> (''legacyResourceId'' \<notin> set (own_keys node)
                \<longrightarrow> own_property r ''legacyResourceId'' = Undefined)"
  using mapDraftOrderNode_spec [OF assms, of inc]
  by (simp add: spec_record_def own_property_missing)

theorem mapDraftOrderNode_identifiers_witness:
  "draft_order_node node_without_ids
   \<and> (\<exists>r. mapDraftOrderNode node_without_ids False = Inr r
         \<and> own_property r ''id'' = Undefined
         \<and> own_property r ''legacyResourceId'' = Undefined)"
proof -
  have wf: "draft_order_node node_without_ids"
    by code_simp
  have k: "''id'' \<notin> set (own_keys node_without_ids)"
          "''legacyResourceId'' \<notin> set (own_keys node_without_ids)"
    by (simp_all add: node_without_ids_def)
  show ?thesis
    using mapDraftOrderNode_identifiers [OF wf, of False] wf k by blast
qed

text \<open>
  C6. On every well-formed draft-order node and for either value of the include-items flag,
  the mapping produces a record in which the identifiers, name, creation time, status and
  invoice URL are those of the node; \<^verbatim>\<open>total\<close> is the amount, a space and the currency
  code when the presentment money is present, and \<^verbatim>\<open>null\<close> otherwise; with the flag
  set, \<^verbatim>\<open>lineItems\<close> maps each line item of the node to its title, quantity and variant
  title, the last defaulted to the empty string; with the flag not set the record has no
  \<^verbatim>\<open>lineItems\<close> field at all.
\<close>

theorem mapDraftOrderNode_fields:
  assumes "draft_order_node node"
  shows "\<exists>r. mapDraftOrderNode node inc = Inr r
           \<and> (\<forall>k \<in> set [''id'', ''legacyResourceId'', ''name'', ''createdAt'', ''status'',
                         ''invoiceUrl'']. own_property r k = own_property node k)
           \<and> (if js_truthy (presentmentMoney node)
               then \<forall>a c. js_ToString (own_property (presentmentMoney node) ''amount'') = Inr a
                          \<and> js_ToString (own_property (presentmentMoney node) ''currencyCode'') = Inr c
                          \<longrightarrow> own_property r ''total'' = JStr (a @ '' '' @ c)
               else own_property r ''total'' = Null)
           \<and> (inc \<and> js_truthy (own_property node ''lineItems'') \<longrightarrow>
                (\<exists>es. line_edges node = Some es
                      \<and> own_property r ''lineItems'' = JArr (map spec_lineItem es)))
           \<and> (\<not> inc \<longrightarrow> ''lineItems'' \<notin> set (own_keys r))"
proof -
  have r: "mapDraftOrderNode node inc = Inr (spec_record node inc)"
    by (rule mapDraftOrderNode_spec [OF assms])
  have copies: "\<forall>k \<in> set [''id'', ''legacyResourceId'', ''name'', ''createdAt'', ''status'',
                         ''invoiceUrl'']. own_property (spec_record node inc) k = own_property node k"
    by (simp add: spec_record_def)
  have tot: "own_property (spec_record node inc) ''total'' = spec_total node"
    by (simp add: spec_record_def)
  have total: "if js_truthy (presentmentMoney node)
               then \<forall>a c. js_ToString (own_property (presentmentMoney node) ''amount'') = Inr a
                          \<and> js_ToString (own_property (presentmentMoney node) ''currencyCode'') = Inr c
                          \<longrightarrow> own_property (spec_record node inc) ''total'' = JStr (a @ '' '' @ c)
               else own_property (spec_record node inc) ''total'' = Null"
    unfolding tot by (simp add: spec_total_def text_of_def)
  have items: "inc \<and> js_truthy (own_property node ''lineItems'') \<longrightarrow>
                (\<exists>es. line_edges node = Some es
                      \<and> own_property (spec_record node inc) ''lineItems'' = JArr (map spec_lineItem es))"
    using assms by (auto simp: spec_record_def draft_order_node_def split: option.splits)
  have omitted: "\<not> inc \<longrightarrow> ''lineItems'' \<notin> set (own_keys (spec_record node inc))"
    by (simp add: spec_record_def)
  show ?thesis
    using r copies total items omitted by blast
qed

theorem mapDraftOrderNode_fields_witness:
  "(\<exists>r. mapDraftOrderNode sample_node True = Inr r
        \<and> own_property r ''name'' = JStr ''#D7''
        \<and> own_property r ''total'' = JStr ''10.00 USD''
        \<and> own_property r ''lineItems''
            = JArr [JObj [(''title'', JStr ''Table''), (''quantity'', JNum 2),
                          (''variantTitle'', JStr [])]])
   \<and> (\<exists>r. mapDraftOrderNode sample_node False = Inr r \<and> ''lineItems'' \<notin> set (own_keys r))
   \<and> (\<exists>r. mapDraftOrderNode node_without_ids True = Inr r \<and> own_property r ''total'' = Null)"
proof -
  have wf: "draft_order_node sample_node" "draft_order_node node_without_ids"
    by code_simp+
  have pm: "js_truthy (presentmentMoney sample_node)"
    and a: "js_ToString (own_property (presentmentMoney sample_node) ''amount'') = Inr ''10.00''"
    and c: "js_ToString (own_property (presentmentMoney sample_node) ''currencyCode'') = Inr ''USD''"
    and li: "js_truthy (own_property sample_node ''lineItems'')"
    and nm: "own_property sample_node ''name'' = JStr ''#D7''"
    and es: "map spec_lineItem (the (line_edges sample_node))
             = [JObj [(''title'', JStr ''Table''), (''quantity'', JNum 2),
                      (''variantTitle'', JStr [])]]"
    and np: "\<not> js_truthy (presentmentMoney node_without_ids)"
    by code_simp+
  have 1: "\<exists>r. mapDraftOrderNode sample_node True = Inr r
        \<and> own_property r ''name'' = JStr ''#D7''
        \<and> own_property r ''total'' = JStr ''10.00 USD''
        \<and> own_property r ''lineItems''
            = JArr [JObj [(''title'', JStr ''Table''), (''quantity'', JNum 2),
                          (''variantTitle'', JStr [])]]"
    using mapDraftOrderNode_fields [OF wf(1), of True] pm a c li nm es
    by (auto simp: )
  have 2: "\<exists>r. mapDraftOrderNode sample_node False = Inr r \<and> ''lineItems'' \<notin> set (own_keys r)"
    using mapDraftOrderNode_fields [OF wf(1), of False] by blast
  have 3: "\<exists>r. mapDraftOrderNode node_without_ids True = Inr r \<and> own_property r ''total'' = Null"
    using mapDraftOrderNode_fields [OF wf(2), of True] np by auto
  from 1 2 3 show ?thesis by blast
qed

section \<open>Identifiers\<close>









lemma digits_not_gid: "all_digits s \<Longrightarrow> \<not> startsWith s ''gid://''"
  by (cases s) (auto simp: all_digits_def startsWith_def is_digit_def)

lemma detail_gid_eq:
  "detail_gid s = (if all_digits s then ''gid://shopify/DraftOrder/'' @ s else s)"
proof (cases "all_digits s")
  case True
  then have "gidToLegacyId (QStr s) = Some s"
    by (auto simp: gidToLegacyId_def Let_def digits_not_gid all_digits_def)
  then show ?thesis
    using True by (auto simp: detail_gid_def digits_not_gid all_digits_def)
next
  case False
  then show ?thesis
    by (auto simp: detail_gid_def gidToLegacyId_def Let_def split: option.splits if_splits)
qed

section \<open>The endpoints\<close>

lemma includes_str_startsWith: "startsWith s p \<Longrightarrow> includes_str s p"
  by (cases s) (auto simp: startsWith_def)

lemma includes_str_prefix: "includes_str (p @ b) p"
  by (rule includes_str_startsWith) (simp add: startsWith_def)

lemma includes_str_append: "includes_str (a @ p @ b) p"
  by (induction a) (simp_all add: includes_str_prefix)

lemma adminGraphQL_calls:
  "fst (adminGraphQL rt ev fetch q vars) = []
   \<or> (\<exists>u t. fst (adminGraphQL rt ev fetch q vars)
              = [\<lparr> fr_url = u, fr_token = t, fr_query = q, fr_variables = vars \<rparr>])"
  by (auto simp: adminGraphQL_def Let_def split: fetch_outcome.splits)

lemma adminGraphQL_one_call:
  assumes "\<not> env_missing (SHOP_DOMAIN ev)" "\<not> env_missing (ADMIN_API_VERSION ev)"
    "\<not> env_missing (ADMIN_ACCESS_TOKEN ev)"
  shows "length (fst (adminGraphQL rt ev fetch q vars)) = 1"
  using assms by (auto simp: adminGraphQL_def Let_def split: fetch_outcome.splits)

lemma detail_catch_status: "res_status (detail_catch e) \<in> {404, 500}"
  by (simp add: detail_catch_def error_response_def)

lemma devis_detail_verified:
  assumes "verifyProxy rt ev req"
  shows "devis_detail rt ev fetch req =
     (let ag = adminGraphQL rt ev fetch (detail_query (includeItems_of req))
                 (JObj [(''id'', JStr (detail_gid (params_id req)))])
      in (case snd ag of
            Inl e \<Rightarrow> detail_catch e
          | Inr data \<Rightarrow>
              if \<not> js_truthy (opt_get data ''draftOrder'') then error_response 404 ''not_found''
              else (case mapDraftOrderNode (opt_get data ''draftOrder'') (includeItems_of req) of
                      Inl e \<Rightarrow> detail_catch e
                    | Inr quote \<Rightarrow> no_cache_json (JObj [(''quote'', quote)])),
          fst ag))"
  using assms
  by (simp add: devis_detail_def Let_def case_prod_beta split: sum.splits)

text \<open>
  C10. On a verified request \<^verbatim>\<open>GET /devis/:id\<close> answers 200, 404 or 500, never 400.
  Every request it sends upstream looks up the identifier
  \<^verbatim>\<open>gid://shopify/DraftOrder/<id>\<close> when \<^verbatim>\<open>id\<close> is a bare numeral and \<^verbatim>\<open>id\<close> itself,
  unchanged, otherwise; with the upstream configured it sends exactly one.
\<close>

theorem devis_detail_never_400:
  assumes "verifyProxy rt ev req"
  shows "res_status (fst (devis_detail rt ev fetch req)) \<in> {200, 404, 500}
         \<and> res_status (fst (devis_detail rt ev fetch req)) \<noteq> 400
         \<and> (\<forall>rq \<in> set (snd (devis_detail rt ev fetch req)).
               fr_variables rq
                 = JObj [(''id'', JStr (if all_digits (params_id req)
                                        then ''gid://shopify/DraftOrder/'' @ params_id req
                                        else params_id req))])
         \<and> (\<not> env_missing (SHOP_DOMAIN ev) \<and> \<not> env_missing (ADMIN_API_VERSION ev)
              \<and> \<not> env_missing (ADMIN_ACCESS_TOKEN ev)
            \<longrightarrow> length (snd (devis_detail rt ev fetch req)) = 1)"
proof -
  let ?ag = "adminGraphQL rt ev fetch (detail_query (includeItems_of req))
               (JObj [(''id'', JStr (detail_gid (params_id req)))])"
  have st: "res_status (fst (devis_detail rt ev fetch req)) \<in> {200, 404, 500}"
    unfolding devis_detail_verified [OF assms]
    using detail_catch_status
    by (auto simp: Let_def error_response_def no_cache_json_def split: sum.splits)
  have calls: "snd (devis_detail rt ev fetch req) = fst ?ag"
    unfolding devis_detail_verified [OF assms] by (simp add: Let_def)
  have vars: "\<forall>rq \<in> set (fst ?ag).
               fr_variables rq = JObj [(''id'', JStr (detail_gid (params_id req)))]"
    using adminGraphQL_calls [of rt ev fetch "detail_query (includeItems_of req)"
            "JObj [(''id'', JStr (detail_gid (params_id req)))]"]
    by auto
  have one: "\<not> env_missing (SHOP_DOMAIN ev) \<and> \<not> env_missing (ADMIN_API_VERSION ev)
              \<and> \<not> env_missing (ADMIN_ACCESS_TOKEN ev)
            \<longrightarrow> length (fst ?ag) = 1"
    using adminGraphQL_one_call by blast
  show ?thesis
    using st vars one unfolding calls detail_gid_eq by auto
qed

lemma map_single: "length xs = 1 \<Longrightarrow> \<forall>x \<in> set xs. f x = y \<Longrightarrow> map f xs = [y]"
  by (cases xs) auto

theorem devis_detail_never_400_witness:
  "res_status (fst (devis_detail sample_rt sample_env fetch_unreachable req_detail_numeric)) \<noteq> 400
   \<and> map fr_variables (snd (devis_detail sample_rt sample_env fetch_unreachable req_detail_numeric))
       = [JObj [(''id'', JStr ''gid://shopify/DraftOrder/42'')]]
   \<and> map fr_variables (snd (devis_detail sample_rt sample_env fetch_unreachable req_detail_word))
       = [JObj [(''id'', JStr ''abc'')]]"
proof -
  have v: "verifyProxy sample_rt sample_env req_detail_numeric"
          "verifyProxy sample_rt sample_env req_detail_word"
    by code_simp+
  have e: "\<not> env_missing (SHOP_DOMAIN sample_env) \<and> \<not> env_missing (ADMIN_API_VERSION sample_env)
            \<and> \<not> env_missing (ADMIN_ACCESS_TOKEN sample_env)"
    by (simp add: sample_env_def env_missing_def)
  have n: "(if all_digits (params_id req_detail_numeric)
            then ''gid://shopify/DraftOrder/'' @ params_id req_detail_numeric
            else params_id req_detail_numeric) = ''gid://shopify/DraftOrder/42''"
    by code_simp
  have w: "(if all_digits (params_id req_detail_word)
            then ''gid://shopify/DraftOrder/'' @ params_id req_detail_word
            else params_id req_detail_word) = ''abc''"
    by code_simp
  note numeric = devis_detail_never_400 [OF v(1), of fetch_unreachable, unfolded n]
  note word = devis_detail_never_400 [OF v(2), of fetch_unreachable, unfolded w]
  have 1: "res_status (fst (devis_detail sample_rt sample_env fetch_unreachable
              req_detail_numeric)) \<noteq> 400"
    using numeric by blast
  have 2: "map fr_variables
             (snd (devis_detail sample_rt sample_env fetch_unreachable req_detail_numeric))
           = [JObj [(''id'', JStr ''gid://shopify/DraftOrder/42'')]]"
    using numeric e by (intro map_single) blast+
  have 3: "map fr_variables
             (snd (devis_detail sample_rt sample_env fetch_unreachable req_detail_word))
           = [JObj [(''id'', JStr ''abc'')]]"
    using word e by (intro map_single) blast+
  from 1 2 3 show ?thesis by blast
qed
lemma decimal_404: "decimal 404 = ''404''"
  by code_simp

text \<open>
  What \<^verbatim>\<open>GET /devis/:id\<close> answers to an upstream failure: the \<^verbatim>\<open>catch\<close> looks for
  \<^verbatim>\<open>HTTP 404\<close> anywhere in the message, and the message of an HTTP failure ends with the
  body the upstream has sent.
\<close>

lemma adminGraphQL_http_failure:
  assumes "\<not> env_missing (SHOP_DOMAIN ev)" "\<not> env_missing (ADMIN_API_VERSION ev)"
    "\<not> env_missing (ADMIN_ACCESS_TOKEN ev)"
    and "\<And>rq. fetch rq = FetchResolved resp"
    and "\<not> resp_ok resp"
  shows "snd (adminGraphQL rt ev fetch q vars)
         = Inl (Error (''[AdminAPI] HTTP '' @ decimal (resp_status resp) @ '': ''
                       @ (case resp_text resp of Inl e \<Rightarrow> [] | Inr t \<Rightarrow> t)))"
  using assms by (simp add: adminGraphQL_def Let_def)

lemma devis_detail_http_failure:
  assumes "verifyProxy rt ev req"
    and "\<not> env_missing (SHOP_DOMAIN ev)" "\<not> env_missing (ADMIN_API_VERSION ev)"
    "\<not> env_missing (ADMIN_ACCESS_TOKEN ev)"
    and "\<And>rq. fetch rq = FetchResolved resp"
    and "\<not> resp_ok resp"
  shows "fst (devis_detail rt ev fetch req)
         = (if includes_str (''[AdminAPI] HTTP '' @ decimal (resp_status resp) @ '': ''
                             @ (case resp_text resp of Inl e \<Rightarrow> [] | Inr t \<Rightarrow> t)) ''HTTP 404''
            then error_response 404 ''not_found''
            else error_response 500 ''server_error'')"
  unfolding devis_detail_verified [OF assms(1)] Let_def
    adminGraphQL_http_failure [OF assms(2-6)]
  by (simp add: detail_catch_def)

text \<open>An upstream status 404 is answered 404 \<^verbatim>\<open>not_found\<close>.\<close>

lemma devis_detail_upstream_404:
  assumes "verifyProxy rt ev req"
    and "\<not> env_missing (SHOP_DOMAIN ev)" "\<not> env_missing (ADMIN_API_VERSION ev)"
    "\<not> env_missing (ADMIN_ACCESS_TOKEN ev)"
    and "\<And>rq. fetch rq = FetchResolved resp"
    and "resp_status resp = 404"
  shows "fst (devis_detail rt ev fetch req) = error_response 404 ''not_found''"
proof -
  have "\<not> resp_ok resp"
    using assms(6) by (simp add: resp_ok_def)
  moreover have "includes_str (''[AdminAPI] '' @ ''HTTP 404'' @ '': ''
                    @ (case resp_text resp of Inl e \<Rightarrow> [] | Inr t \<Rightarrow> t)) ''HTTP 404''"
    by (rule includes_str_append)
  ultimately show ?thesis
    using devis_detail_http_failure [OF assms(1-5)] assms(6) by (simp add: decimal_404)
qed

text \<open>
  A successful upstream answer without a node is answered 404 \<^verbatim>\<open>not_found\<close>, whatever
  the request says about the items.
\<close>

lemma devis_detail_null_node:
  assumes "verifyProxy rt ev req"
    and "\<not> env_missing (SHOP_DOMAIN ev)" "\<not> env_missing (ADMIN_API_VERSION ev)"
    "\<not> env_missing (ADMIN_ACCESS_TOKEN ev)"
    and "\<And>rq. fetch rq = FetchResolved resp"
    and "resp_ok resp" and "resp_json resp = Inr json" and "\<not> nullish json"
    and "\<not> js_truthy (own_property json ''errors'')"
    and "\<not> js_truthy (opt_get (own_property json ''data'') ''draftOrder'')"
  shows "fst (devis_detail rt ev fetch req) = error_response 404 ''not_found''"
proof -
  have "snd (adminGraphQL rt ev fetch (detail_query (includeItems_of req))
               (JObj [(''id'', JStr (detail_gid (params_id req)))]))
        = Inr (own_property json ''data'')"
    using assms(2-9) by (simp add: adminGraphQL_def Let_def bindE_def js_get_def)
  then show ?thesis
    unfolding devis_detail_verified [OF assms(1)] Let_def using assms(10) by simp
qed

lemma devis_detail_null_node_example:
  "devis_detail sample_rt sample_env
     (fetch_json (JObj [(''data'', JObj [(''draftOrder'', Null)])])) req_detail_word
   = (error_response 404 ''not_found'',
      [\<lparr> fr_url = ''https://shop.example/admin/api/2024-01/graphql.json'',
         fr_token = ''tok'',
         fr_query = detail_query True,
         fr_variables = JObj [(''id'', JStr ''abc'')] \<rparr>])"
  by code_simp

text \<open>
  C7 says that every upstream HTTP failure other than a status 404 is answered 500
  \<^verbatim>\<open>server_error\<close>. The code answers 404 \<^verbatim>\<open>not_found\<close> to an upstream status 502 whose
  body reads \<^verbatim>\<open>origin returned HTTP 404\<close>: the text is found in the error message.
\<close>

theorem devis_detail_http_failure_body_404:
  "verifyProxy sample_rt sample_env req_detail_numeric
   \<and> \<not> resp_ok \<lparr> resp_status = 502, resp_text = Inr ''origin returned HTTP 404'',
                   resp_json = Inl (Error ''Unexpected token in JSON'') \<rparr>
   \<and> fst (devis_detail sample_rt sample_env (fetch_status 502 ''origin returned HTTP 404'')
            req_detail_numeric)
       = error_response 404 ''not_found''
   \<and> error_response 404 ''not_found'' \<noteq> error_response 500 ''server_error''"
  by code_simp





end
